theory Spec2Isabelle
  imports Complex_Main "HOL-Library.Word"
begin

section \<open>JavaScript numbers\<close>

text \<open>
  A JavaScript number is modelled as a real number or one of the three non-finite values.
  Rounding of binary floating point and the sign of zero are not modelled: arithmetic on
  finite values is exact. A missing array slot or an unassigned variable (\<open>undefined\<close>)
  that is only ever used in arithmetic, comparisons and truth tests behaves there as
  \<open>NaN\<close> does, and is represented by \<open>NaN\<close>.
\<close>

datatype jsnum = Num real | PInf | NInf | NaN

definition js_inf :: "real \<Rightarrow> jsnum" where
  "js_inf sg = (if 0 < sg then PInf else if sg < 0 then NInf else NaN)"

fun js_sgn :: "jsnum \<Rightarrow> real" where
  "js_sgn (Num x) = sgn x"
| "js_sgn PInf = 1"
| "js_sgn NInf = - 1"
| "js_sgn NaN = 0"

fun js_neg :: "jsnum \<Rightarrow> jsnum" where
  "js_neg (Num x) = Num (- x)"
| "js_neg PInf = NInf"
| "js_neg NInf = PInf"
| "js_neg NaN = NaN"

fun js_add :: "jsnum \<Rightarrow> jsnum \<Rightarrow> jsnum" where
  "js_add (Num x) (Num y) = Num (x + y)"
| "js_add NaN _ = NaN"
| "js_add _ NaN = NaN"
| "js_add PInf NInf = NaN"
| "js_add NInf PInf = NaN"
| "js_add PInf _ = PInf"
| "js_add _ PInf = PInf"
| "js_add NInf _ = NInf"
| "js_add _ NInf = NInf"

definition js_sub :: "jsnum \<Rightarrow> jsnum \<Rightarrow> jsnum" where
  "js_sub a b = js_add a (js_neg b)"

fun js_mul :: "jsnum \<Rightarrow> jsnum \<Rightarrow> jsnum" where
  "js_mul (Num x) (Num y) = Num (x * y)"
| "js_mul NaN _ = NaN"
| "js_mul _ NaN = NaN"
| "js_mul a b = js_inf (js_sgn a * js_sgn b)"

fun js_div :: "jsnum \<Rightarrow> jsnum \<Rightarrow> jsnum" where
  "js_div (Num x) (Num y) = (if y = 0 then js_inf (sgn x) else Num (x / y))"
| "js_div NaN _ = NaN"
| "js_div _ NaN = NaN"
| "js_div (Num x) _ = Num 0"
| "js_div a (Num y) = js_inf (js_sgn a * (if y < 0 then - 1 else 1))"
| "js_div _ _ = NaN"

fun js_lt :: "jsnum \<Rightarrow> jsnum \<Rightarrow> bool" where
  "js_lt (Num x) (Num y) = (x < y)"
| "js_lt NaN _ = False"
| "js_lt _ NaN = False"
| "js_lt _ NInf = False"
| "js_lt PInf _ = False"
| "js_lt _ _ = True"

definition js_gt :: "jsnum \<Rightarrow> jsnum \<Rightarrow> bool" where
  "js_gt a b = js_lt b a"

fun js_le :: "jsnum \<Rightarrow> jsnum \<Rightarrow> bool" where
  "js_le (Num x) (Num y) = (x \<le> y)"
| "js_le NaN _ = False"
| "js_le _ NaN = False"
| "js_le NInf _ = True"
| "js_le _ PInf = True"
| "js_le _ _ = False"

definition js_ge :: "jsnum \<Rightarrow> jsnum \<Rightarrow> bool" where
  "js_ge a b = js_le b a"

fun js_min :: "jsnum \<Rightarrow> jsnum \<Rightarrow> jsnum" where
  "js_min NaN _ = NaN"
| "js_min _ NaN = NaN"
| "js_min a b = (if js_lt b a then b else a)"

fun js_max :: "jsnum \<Rightarrow> jsnum \<Rightarrow> jsnum" where
  "js_max NaN _ = NaN"
| "js_max _ NaN = NaN"
| "js_max a b = (if js_lt a b then b else a)"

fun js_truthy :: "jsnum \<Rightarrow> bool" where
  "js_truthy (Num x) = (x \<noteq> 0)"
| "js_truthy NaN = False"
| "js_truthy _ = True"

fun js_round :: "jsnum \<Rightarrow> jsnum" where
  "js_round (Num x) = Num (of_int \<lfloor>x + 1 / 2\<rfloor>)"
| "js_round a = a"

fun js_log10 :: "jsnum \<Rightarrow> jsnum" where
  "js_log10 (Num x) = (if 0 < x then Num (log 10 x) else if x = 0 then NInf else NaN)"
| "js_log10 PInf = PInf"
| "js_log10 _ = NaN"

text \<open>
  The 32-bit integer conversion behind \<open>x | 0\<close>, \<open>x >> k\<close> and \<open>x << k\<close>: truncate
  toward zero, then wrap into the signed 32-bit range. Non-finite values convert to 0.
\<close>

definition js_trunc :: "real \<Rightarrow> int" where
  "js_trunc x = (if 0 \<le> x then \<lfloor>x\<rfloor> else \<lceil>x\<rceil>)"

definition wrap32 :: "int \<Rightarrow> int" where
  "wrap32 k = (k + 2 ^ 31) mod 2 ^ 32 - 2 ^ 31"

fun to_int32 :: "jsnum \<Rightarrow> int" where
  "to_int32 (Num x) = wrap32 (js_trunc x)"
| "to_int32 _ = 0"

definition js_shr :: "int \<Rightarrow> nat \<Rightarrow> int" where
  "js_shr k n = wrap32 k div 2 ^ (n mod 32)"



section \<open>Data model\<close>

datatype error =
    ERR_INVALID_MODE
  | ERR_REFLEX_OUT_OF_RANGE
  | ERR_FREQUENCY_TOO_LOW
  | ERR_GRADIENT_INVALID_NAME
  | ERR_GRADIENT_NOT_AN_OBJECT
  | ERR_GRADIENT_MISSING_COLOR
  | TypeError

text \<open>
  An operation returns the exception it threw, if any, together with the analyzer as the
  call left it: a JavaScript \<open>throw\<close> keeps every assignment made before it.
\<close>

type_synonym 'a outcome = "error option \<times> 'a"

text \<open>
  One entry of \<open>_bars\<close>. The per-channel arrays \<open>peak\<close>, \<open>hold\<close> and \<open>accel\<close>
  have at most two slots (channel 0 and 1); \<open>hold\<close> and \<open>accel\<close> are created empty,
  so both slots start as \<open>NaN\<close>.
\<close>

record bar =
  posX :: jsnum
  dataIdx :: int
  endIdx :: int
  factor :: real
  peak :: "jsnum \<times> jsnum"
  hold :: "jsnum \<times> jsnum"
  accel :: "jsnum \<times> jsnum"



definition new_bar :: "jsnum \<Rightarrow> int \<Rightarrow> int \<Rightarrow> bar" where
  "new_bar pos i e =
     \<lparr>posX = pos, dataIdx = i, endIdx = e, factor = 0,
      peak = (Num 0, Num 0), hold = (NaN, NaN), accel = (NaN, NaN)\<rparr>"

record energy =
  val :: jsnum
  e_peak :: jsnum
  e_hold :: int

datatype color_stop = Color string | Stop "real option" string

record gradient_def =
  bgColor :: string
  dir :: "string option"
  colorStops :: "color_stop list"



datatype jsarg = Undefined | Number real | Str string

text \<open>
  The fields of the analyzer object that the operations below read or write. The audio
  graph, the canvas contents, the gradient object built by \<open>_makeGrad\<close> and the scale
  canvases drawn by \<open>_createScales\<close> are left out: nothing modelled here reads them.
  \<open>sampleRate\<close> and \<open>fftSize\<close> belong to the audio context and the analyser node; the
  Web Audio API keeps the sample rate positive and the FFT size a power of two from 32
  to 32768. \<open>devicePixelRatio\<close> and \<open>screen_height\<close> are the values of the window.
\<close>

record analyzer =
  ready :: bool
  mode :: int
  minFreq :: real
  maxFreq :: real
  reflexRatio :: real
  barSpace :: real
  stereo :: bool
  radial :: bool
  lumiBars :: bool
  showLeds :: bool
  canvas_width :: int
  canvas_height :: int
  pixelRatio :: real
  devicePixelRatio :: real
  screen_height :: real
  fftSize :: int
  sampleRate :: real
  fftData :: "8 word list \<times> 8 word list"
  ledParams :: "(real \<times> real \<times> real) option"
  leds :: "(jsnum \<times> jsnum \<times> jsnum \<times> jsnum) option"
  bars :: "bar list"
  barWidth :: jsnum
  radius :: int
  barSpacePx :: jsnum
  isOctaveBands :: bool
  isLedDisplay :: bool
  isLumiBars :: bool
  maximizeLeds :: bool
  channelHeight :: int
  analyzerHeight :: int
  channelGap :: int
  energy :: energy
  gradients :: "string \<rightharpoonup> gradient_def"

section \<open>Constants\<close>

definition ROOT24 :: real where
  "ROOT24 = 2 powr (1 / 24)"

definition C0 :: real where
  "C0 = 440 * ROOT24 powr (- 114)"

section \<open>Auxiliary values: \<open>_calcAux\<close>\<close>

definition calcAux :: "analyzer \<Rightarrow> analyzer" where
  "calcAux s =
     (let h = canvas_height s;
          oct = (mode s mod 10 \<noteq> 0);
          led = (showLeds s \<and> oct \<and> \<not> radial s);
          lumi = (lumiBars s \<and> oct \<and> \<not> radial s);
          isDual = (stereo s \<and> \<not> radial s);
          chH = js_shr (js_trunc (of_int h - (if isDual \<and> \<not> led then 0.5 else 0)))
                       (if isDual then 1 else 0)
      in s\<lparr>radius := wrap32 (js_trunc (of_int h * (if stereo s then 0.375 else 0.125))),
           barSpacePx := js_min (js_sub (barWidth s) (Num 1))
                           (if 0 < barSpace s \<and> barSpace s < 1
                            then js_mul (barWidth s) (Num (barSpace s))
                            else Num (barSpace s)),
           isOctaveBands := oct,
           isLedDisplay := led,
           isLumiBars := lumi,
           maximizeLeds := (\<not> stereo s \<or> (0 < reflexRatio s \<and> \<not> lumi)),
           channelHeight := chH,
           analyzerHeight :=
             wrap32 (js_trunc (of_int chH * (if lumi \<or> radial s then 1 else 1 - reflexRatio s))),
           channelGap := (if isDual then h - chH * 2 else 0)\<rparr>)"

section \<open>LED attributes: \<open>_calcLeds\<close>\<close>

text \<open>
  The built-in table \<open>params\<close>. Entry 0 is the empty array, whose three components are
  \<open>undefined\<close>; there is no entry above 8, where destructuring throws a TypeError.
\<close>

definition led_defaults :: "int \<Rightarrow> (jsnum \<times> jsnum \<times> jsnum) option" where
  "led_defaults m =
     (if m = 0 then Some (NaN, NaN, NaN)
      else if m = 1 then Some (Num 128, Num 3, Num 0.45)
      else if m = 2 then Some (Num 128, Num 4, Num 0.225)
      else if m = 3 then Some (Num 96, Num 6, Num 0.225)
      else if m = 4 then Some (Num 80, Num 6, Num 0.225)
      else if m = 5 then Some (Num 80, Num 6, Num 0.125)
      else if m = 6 then Some (Num 64, Num 6, Num 0.125)
      else if m = 7 then Some (Num 48, Num 8, Num 0.125)
      else if m = 8 then Some (Num 24, Num 16, Num 0.125)
      else None)"

text \<open>
  The \<open>do ... while\<close> loop of the custom-parameter branch. The argument \<open>ledCount0\<close> is
  the count before the decrement that opens the loop body.
\<close>

function led_loop :: "real \<Rightarrow> real \<Rightarrow> real \<Rightarrow> real \<Rightarrow> real \<times> jsnum \<times> jsnum" where
  "led_loop analyzerHeight0 spaceVRatio minHeight ledCount0 =
     (let ledCount = ledCount0 - 1;
          blockHeight = js_div (js_div (Num analyzerHeight0) (Num ledCount)) (Num (1 + spaceVRatio));
          spaceV = js_mul blockHeight (Num spaceVRatio)
      in if (js_lt blockHeight (Num minHeight) \<or> js_lt spaceV (Num minHeight)) \<and> 1 < ledCount
         then led_loop analyzerHeight0 spaceVRatio minHeight ledCount
         else (ledCount, blockHeight, spaceV))"
  by pat_completeness auto
termination
  apply (relation "measure (\<lambda>(a, r, m, c). nat \<lceil>c\<rceil>)")
   apply simp
  apply (simp add: ceiling_diff_one)
  done

text \<open>
  The body of \<open>_calcLeds\<close> after its guard: the array it assigns to \<open>_leds\<close>, or the
  TypeError of destructuring a missing table entry.
\<close>

definition led_attributes :: "analyzer \<Rightarrow> error + (jsnum \<times> jsnum \<times> jsnum \<times> jsnum)" where
  "led_attributes s =
     (let dPR = pixelRatio s / (if 1 < devicePixelRatio s \<and> screen_height s \<le> 540 then 2 else 1);
          ah = Num (of_int (analyzerHeight s))
      in case ledParams s of
           Some (maxLeds, spaceVRatio, spaceHRatio) \<Rightarrow>
             (let minHeight = 2 * dPR;
                  (ledCount, blockHeight, spaceV) =
                     led_loop (of_int (analyzerHeight s)) spaceVRatio minHeight (maxLeds + 1);
                  ah' = (if maximizeLeds s then js_add ah spaceV else ah)
              in Inr (Num ledCount,
                      (if 1 \<le> spaceHRatio then Num spaceHRatio
                       else js_mul (barWidth s) (Num spaceHRatio)),
                      spaceV,
                      js_sub (js_div ah' (Num ledCount)) spaceV))
         | None \<Rightarrow>
             (case led_defaults (mode s) of
                None \<Rightarrow> Inl TypeError
              | Some (maxLeds, spaceVRatio, spaceHRatio) \<Rightarrow>
                  (let refRatio = js_div (Num 540) spaceVRatio;
                       spaceV = js_min (js_mul spaceVRatio (Num dPR))
                                  (js_max (Num 2)
                                     (Num (of_int (to_int32 (js_add (js_div ah refRatio) (Num 0.1))))));
                       ah' = (if maximizeLeds s then js_add ah spaceV else ah);
                       ledCount = js_min maxLeds
                                    (Num (of_int (to_int32 (js_div ah' (js_mul spaceV (Num 2))))))
                   in Inr (ledCount,
                           (if js_ge spaceHRatio (Num 1) then spaceHRatio
                            else js_mul (barWidth s) spaceHRatio),
                           spaceV,
                           js_sub (js_div ah' ledCount) spaceV))))"

definition calcLeds :: "analyzer \<Rightarrow> analyzer outcome" where
  "calcLeds s =
     (if \<not> isOctaveBands s \<or> \<not> ready s then (None, s)
      else (case led_attributes s of
              Inl err \<Rightarrow> (Some err, s)
            | Inr l \<Rightarrow> (None, s\<lparr>leds := Some l\<rparr>)))"

section \<open>Bar layout: \<open>_freqToBin\<close> and \<open>_calcBars\<close>\<close>

datatype rounding = Round | Floor

definition frequencyBinCount :: "analyzer \<Rightarrow> int" where
  "frequencyBinCount s = fftSize s div 2"

definition freqToBin :: "analyzer \<Rightarrow> real \<Rightarrow> rounding \<Rightarrow> int" where
  "freqToBin s freq r =
     (let mx = frequencyBinCount s - 1;
          q = freq * of_int (fftSize s) / sampleRate s;
          bin = (case r of Round \<Rightarrow> \<lfloor>q + 1 / 2\<rfloor> | Floor \<Rightarrow> \<lfloor>q\<rfloor>)
      in if bin < mx then bin else mx)"

definition binToFreq :: "analyzer \<Rightarrow> int \<Rightarrow> real" where
  "binToFreq s bin = of_int bin * sampleRate s / of_int (fftSize s)"

text \<open>
  Discrete frequencies: the \<open>for\<close> loop over the FFT bins from \<open>minIndex\<close> to
  \<open>maxIndex\<close>. \<open>pos_of i\<close> is the rounded screen position computed for bin \<open>i\<close>,
  which \<open>_calcBars\<close> computes as \<open>bar_pos\<close> does.
\<close>

definition bar_pos :: "analyzer \<Rightarrow> jsnum \<Rightarrow> jsnum \<Rightarrow> int \<Rightarrow> jsnum" where
  "bar_pos s logWidth minLog i =
     js_round (js_mul logWidth (js_sub (js_log10 (Num (binToFreq s i))) minLog))"

function discrete_loop :: "(int \<Rightarrow> jsnum) \<Rightarrow> int \<Rightarrow> int \<Rightarrow> jsnum \<Rightarrow> bar list \<Rightarrow> bar list" where
  "discrete_loop pos_of i maxIndex lastPos bs =
     (if i \<le> maxIndex
      then (let pos = pos_of i
            in if js_gt pos lastPos
               then discrete_loop pos_of (i + 1) maxIndex pos (bs @ [new_bar pos i 0])
               else if bs \<noteq> []
               then discrete_loop pos_of (i + 1) maxIndex lastPos
                      (butlast bs @ [(last bs)\<lparr>endIdx := i\<rparr>])
               else discrete_loop pos_of (i + 1) maxIndex lastPos bs)
      else bs)"
  by pat_completeness auto
termination
  by (relation "measure (\<lambda>(f, i, maxIndex, lastPos, bs). nat (maxIndex + 1 - i))") auto

text \<open>
  Octave bands: the table of equal-tempered frequencies. \<open>notesPerBand\<close> is the lookup
  \<open>[0,1,2,3,4,6,8,12,24][mode]\<close>, which is \<open>undefined\<close> outside the table; the test
  \<open>i % notesPerBand === 0\<close> is false when the remainder is \<open>NaN\<close>.
\<close>

definition notesPerBand :: "int \<Rightarrow> nat option" where
  "notesPerBand m =
     (if 0 \<le> m \<and> m \<le> 8 then Some ([0, 1, 2, 3, 4, 6, 8, 12, 24] ! nat m) else None)"

definition note_selected :: "nat \<Rightarrow> nat option \<Rightarrow> bool" where
  "note_selected i npb = (case npb of None \<Rightarrow> False | Some n \<Rightarrow> n \<noteq> 0 \<and> i mod n = 0)"

function tempered_loop :: "real \<Rightarrow> real \<Rightarrow> nat option \<Rightarrow> nat \<Rightarrow> real list \<Rightarrow> real list" where
  "tempered_loop minF maxF npb i temperedScale =
     (let freq = C0 * ROOT24 ^ i
      in if freq \<le> maxF
         then tempered_loop minF maxF npb (i + 1)
                (if minF \<le> freq \<and> note_selected i npb then temperedScale @ [freq]
                 else temperedScale)
         else temperedScale)"
  by pat_completeness auto
termination
proof (relation "measure (\<lambda>(minF, maxF, npb, i, sc). (LEAST n. maxF < C0 * ROOT24 ^ n) - i)",
    goal_cases)
  case 1
  show ?case by simp
next
  case (2 minF maxF npb i sc freq)
  have r: "1 < ROOT24"
    unfolding ROOT24_def by simp
  have c: "0 < C0"
    unfolding C0_def ROOT24_def by simp
  obtain n where "maxF / C0 < ROOT24 ^ n"
    using real_arch_pow [OF r] by blast
  then have P: "maxF < C0 * ROOT24 ^ n"
    using c by (simp add: pos_divide_less_eq mult.commute)
  define L where "L = (LEAST n. maxF < C0 * ROOT24 ^ n)"
  have PL: "maxF < C0 * ROOT24 ^ L"
    unfolding L_def using P by (rule LeastI)
  have "i < L"
  proof (rule ccontr)
    assume "\<not> i < L"
    then have "ROOT24 ^ L \<le> ROOT24 ^ i"
      using r by (simp add: power_increasing)
    then have "C0 * ROOT24 ^ L \<le> C0 * ROOT24 ^ i"
      using c by simp
    with PL 2 show False
      by simp
  qed
  then show ?case
    by (simp add: L_def)
qed

text \<open>
  Interpolation factors for the last \<open>nBars\<close> bars, which share one FFT bin. The run
  always exists: \<open>nBars\<close> never exceeds the number of bars pushed so far.
\<close>

fun set_factors :: "nat \<Rightarrow> nat \<Rightarrow> bar list \<Rightarrow> bar list" where
  "set_factors nBars 0 bs = bs"
| "set_factors nBars (Suc k) bs =
     (let i = nBars - Suc k;
          j = length bs - nBars + i
      in set_factors nBars k (bs[j := (bs ! j)\<lparr>factor := (real i + 1) / real nBars\<rparr>]))"

text \<open>
  The \<open>forEach\<close> over the tempered scale, carrying \<open>prevBin\<close>, \<open>prevIdx\<close> and
  \<open>nBars\<close>. The rest of the list stands for \<open>index < temperedScale.length - 1\<close> and
  \<open>temperedScale[index + 1]\<close>.
\<close>

fun octave_loop ::
    "analyzer \<Rightarrow> jsnum \<Rightarrow> real list \<Rightarrow> nat \<Rightarrow> int \<Rightarrow> int \<Rightarrow> nat \<Rightarrow> bar list \<Rightarrow> bar list" where
  "octave_loop s bw [] index prevBin prevIdx nBars bs = bs"
| "octave_loop s bw (freq # rest) index prevBin prevIdx nBars bs =
     (let bin = freqToBin s freq Round;
          idx = (if 0 < prevBin \<and> prevBin + 1 \<le> bin then prevBin + 1 else bin);
          bs1 = (if idx = prevIdx then bs
                 else if 1 < nBars then set_factors nBars nBars bs else bs);
          nBars1 = (if idx = prevIdx then nBars + 1 else 1);
          prevIdx1 = (if idx = prevIdx then prevIdx else idx);
          prevBin1 = (case rest of
                        [] \<Rightarrow> bin
                      | nextFreq # _ \<Rightarrow>
                          (let nextBin = freqToBin s nextFreq Round
                           in if 1 < nextBin - bin
                              then bin + \<lfloor>real_of_int (nextBin - bin) / 2 + 1 / 2\<rfloor>
                              else bin));
          endIdx1 = (if 0 < prevBin1 - idx then prevBin1 else 0)
      in octave_loop s bw rest (index + 1) prevBin1 prevIdx1 nBars1
           (bs1 @ [new_bar (js_mul (Num (real index)) bw) idx endIdx1]))"

text \<open>
  \<open>_calcBars\<close>. The values \<open>_minLog\<close> and \<open>_logWidth\<close> it saves are read by
  \<open>_createScales\<close> only and are not kept.
\<close>

definition calcBars :: "analyzer \<Rightarrow> analyzer outcome" where
  "calcBars s0 =
     (let s = s0\<lparr>bars := []\<rparr>
      in if \<not> ready s then (None, s)
         else
           (let s1 =
                  (if \<not> isOctaveBands s
                   then (let minLog = js_log10 (Num (minFreq s));
                             logWidth = js_div (Num (of_int (canvas_width s)))
                                          (js_sub (js_log10 (Num (maxFreq s))) minLog);
                             minIndex = freqToBin s (minFreq s) Floor;
                             maxIndex = freqToBin s (maxFreq s) Round
                         in s\<lparr>barWidth := Num 1,
                              bars := discrete_loop (bar_pos s logWidth minLog)
                                        minIndex maxIndex (Num (- 999)) []\<rparr>)
                   else (let temperedScale =
                               tempered_loop (minFreq s) (maxFreq s) (notesPerBand (mode s)) 0 [];
                             bw = js_div (Num (of_int (canvas_width s)))
                                    (Num (real (length temperedScale)))
                         in s\<lparr>barWidth := bw,
                              bars := octave_loop s bw temperedScale 0 0 (- 1) 0 []\<rparr>))
            in calcLeds (calcAux s1)))"


section \<open>Configuration setters\<close>

text \<open>
  The setters take numbers. \<open>set mode\<close> coerces its argument with \<open>value | 0\<close> and
  \<open>set reflexRatio\<close> with \<open>+value || 0\<close>; the frequency setters compare the argument
  as it is, and are modelled on finite numbers. Each setter ends in calls of
  \<open>_calcAux\<close>, \<open>_calcBars\<close>, \<open>_calcLeds\<close> and \<open>_makeGrad\<close>; the last one only
  rebuilds the canvas gradient.
\<close>

definition set_mode :: "jsnum \<Rightarrow> analyzer \<Rightarrow> analyzer outcome" where
  "set_mode v s =
     (let m = to_int32 v
      in if 0 \<le> m \<and> m \<le> 10 \<and> m \<noteq> 9
         then calcBars (calcAux (s\<lparr>mode := m\<rparr>))
         else (Some ERR_INVALID_MODE, s))"

definition set_reflexRatio :: "jsnum \<Rightarrow> analyzer \<Rightarrow> analyzer outcome" where
  "set_reflexRatio v0 s =
     (let v = (if js_truthy v0 then v0 else Num 0)
      in if js_lt v (Num 0) \<or> js_ge v (Num 1)
         then (Some ERR_REFLEX_OUT_OF_RANGE, s)
         else (case v of
                 Num r \<Rightarrow> calcLeds (calcAux (s\<lparr>reflexRatio := r\<rparr>))
               | _ \<Rightarrow> (None, s)))"

definition set_minFreq :: "real \<Rightarrow> analyzer \<Rightarrow> analyzer outcome" where
  "set_minFreq v s =
     (if v < 1 then (Some ERR_FREQUENCY_TOO_LOW, s)
      else calcBars (s\<lparr>minFreq := v\<rparr>))"

definition set_maxFreq :: "real \<Rightarrow> analyzer \<Rightarrow> analyzer outcome" where
  "set_maxFreq v s =
     (if v < 1 then (Some ERR_FREQUENCY_TOO_LOW, s)
      else calcBars (s\<lparr>maxFreq := v\<rparr>))"


text \<open>
  \<open>setLedParams\<close>. The function declares \<open>maxLeds\<close>, \<open>spaceV\<close> and \<open>spaceH\<close>
  without a value. The block under \<open>if ( params )\<close> declares three variables of the
  same names with \<open>let\<close>; they end with the block, and the test that follows reads the
  outer three.
\<close>

record led_args =
  arg_maxLeds :: real
  arg_spaceV :: real
  arg_spaceH :: real

definition setLedParams :: "led_args option \<Rightarrow> analyzer \<Rightarrow> analyzer outcome" where
  "setLedParams params s =
     (let maxLeds = NaN;
          spaceV = NaN;
          spaceH = NaN;
          block = (case params of
                     None \<Rightarrow> ()
                   | Some p \<Rightarrow>
                       (let maxLeds = Num (arg_maxLeds p);
                            spaceV = Num (arg_spaceV p);
                            spaceH = Num (arg_spaceH p)
                        in ()))
      in calcLeds
           (s\<lparr>ledParams :=
                (if js_gt maxLeds (Num 0) \<and> js_gt spaceV (Num 0) \<and> js_ge spaceH (Num 0)
                 then (case (maxLeds, spaceV, spaceH) of
                         (Num a, Num b, Num c) \<Rightarrow> Some (a, b, c)
                       | _ \<Rightarrow> None)
                 else None)\<rparr>))"

section \<open>Gradients: \<open>registerGradient\<close>\<close>



definition builtin_gradients :: "string \<rightharpoonup> gradient_def" where
  "builtin_gradients =
     [''classic'' \<mapsto>
        \<lparr>bgColor = ''#111'', dir = None,
         colorStops = [Color ''hsl( 0, 100%, 50% )'',
                       Stop (Some 0.6) ''hsl( 60, 100%, 50% )'',
                       Color ''hsl( 120, 100%, 50% )'']\<rparr>,
      ''prism'' \<mapsto>
        \<lparr>bgColor = ''#111'', dir = None,
         colorStops = [Color ''hsl( 0, 100%, 50% )'',
                       Color ''hsl( 60, 100%, 50% )'',
                       Color ''hsl( 120, 100%, 50% )'',
                       Color ''hsl( 180, 100%, 50% )'',
                       Color ''hsl( 240, 100%, 50% )'']\<rparr>,
      ''rainbow'' \<mapsto>
        \<lparr>bgColor = ''#111'', dir = Some ''h'',
         colorStops = [Color ''hsl( 0, 100%, 50% )'',
                       Color ''hsl( 60, 100%, 50% )'',
                       Color ''hsl( 120, 100%, 50% )'',
                       Color ''hsl( 180, 100%, 47% )'',
                       Color ''hsl( 240, 100%, 58% )'',
                       Color ''hsl( 300, 100%, 50% )'',
                       Color ''hsl( 360, 100%, 50% )'']\<rparr>]"


section \<open>Energy of a frequency range: \<open>getEnergy\<close>\<close>

definition fft_at :: "8 word list \<Rightarrow> int \<Rightarrow> jsnum" where
  "fft_at d i = (if 0 \<le> i \<and> i < int (length d) then Num (real (unat (d ! nat i))) else NaN)"

text \<open>
  \<open>presets\<close> is an object literal, so a lookup that finds no own property goes on to
  \<open>Object.prototype\<close>. There it finds a function or, for \<open>__proto__\<close>, the prototype
  object: a value that is truthy and not iterable.
\<close>

definition presets :: "string \<rightharpoonup> real \<times> real" where
  "presets =
     [''bass'' \<mapsto> (20, 250),
      ''lowMid'' \<mapsto> (250, 500),
      ''mid'' \<mapsto> (500, 2000),
      ''highMid'' \<mapsto> (2000, 4000),
      ''treble'' \<mapsto> (4000, 16000)]"

definition object_prototype_keys :: "string list" where
  "object_prototype_keys =
     [''constructor'', ''hasOwnProperty'', ''isPrototypeOf'', ''propertyIsEnumerable'',
      ''toLocaleString'', ''toString'', ''valueOf'', ''__proto__'',
      ''__defineGetter__'', ''__defineSetter__'', ''__lookupGetter__'', ''__lookupSetter__'']"

datatype preset_lookup = Own "real \<times> real" | Inherited | Missing

definition presets_get :: "string \<Rightarrow> preset_lookup" where
  "presets_get key =
     (case presets key of
        Some r \<Rightarrow> Own r
      | None \<Rightarrow> if key \<in> set object_prototype_keys then Inherited else Missing)"

function bins_loop :: "8 word list \<Rightarrow> int \<Rightarrow> int \<Rightarrow> jsnum \<Rightarrow> jsnum" where
  "bins_loop d i endBin e =
     (if i \<le> endBin then bins_loop d (i + 1) endBin (js_add e (fft_at d i)) else e)"
  by pat_completeness auto
termination
  by (relation "measure (\<lambda>(d, i, endBin, e). nat (endBin + 1 - i))") auto

definition range_energy :: "analyzer \<Rightarrow> real \<Rightarrow> real option \<Rightarrow> jsnum" where
  "range_energy s startFreq endFreq =
     (let startBin = freqToBin s startFreq Round;
          endBin = (case endFreq of
                      None \<Rightarrow> startBin
                    | Some e \<Rightarrow> if e \<noteq> 0 then freqToBin s e Round else startBin);
          chnCount = (if stereo s then 2 else 1);
          e0 = bins_loop (fst (fftData s)) startBin endBin (Num 0);
          e1 = (if stereo s then bins_loop (snd (fftData s)) startBin endBin e0 else e0)
      in js_div (js_div (js_div e1 (Num (of_int (endBin - startBin + 1)))) (Num chnCount))
           (Num 255))"

datatype energy_result = Null_result | Energy jsnum

definition getEnergy :: "jsarg \<Rightarrow> real option \<Rightarrow> analyzer \<Rightarrow> error + energy_result" where
  "getEnergy startFreq endFreq s =
     (case startFreq of
        Undefined \<Rightarrow> Inr (Energy (val (energy s)))
      | Number x \<Rightarrow>
          (if x \<noteq> of_int (wrap32 (js_trunc x)) then Inr Null_result
           else Inr (Energy (range_energy s x endFreq)))
      | Str name \<Rightarrow>
          (if name = ''peak'' then Inr (Energy (e_peak (energy s)))
           else (case presets_get name of
                   Missing \<Rightarrow> Inr Null_result
                 | Inherited \<Rightarrow> Inl TypeError
                 | Own (a, b) \<Rightarrow> Inr (Energy (range_energy s a (Some b))))))"

section \<open>One animation frame: \<open>_draw\<close>\<close>












section \<open>Reading results and sample inputs\<close>




text \<open>
  An analyzer with the default options of \<open>_setProps\<close> on a canvas of 1000 by 270
  pixels at 44100 Hz, as \<open>_calcAux\<close> leaves it, before the first layout.
\<close>

definition sample_analyzer :: analyzer where
  "sample_analyzer =
     \<lparr>ready = True, mode = 0, minFreq = 20, maxFreq = 22000, reflexRatio = 0,
      barSpace = 0.1, stereo = False, radial = False, lumiBars = False, showLeds = False,
      canvas_width = 1000, canvas_height = 270, pixelRatio = 1, devicePixelRatio = 1,
      screen_height = 1080, fftSize = 8192, sampleRate = 44100,
      fftData = (replicate 4096 0, replicate 4096 0), ledParams = None, leds = None,
      bars = [], barWidth = Num 1, radius = 33, barSpacePx = Num 0,
      isOctaveBands = False, isLedDisplay = False, isLumiBars = False, maximizeLeds = True,
      channelHeight = 270, analyzerHeight = 270, channelGap = 0,
      energy = \<lparr>val = Num 0, e_peak = Num 0, e_hold = 0\<rparr>,
      gradients = builtin_gradients\<rparr>"

text \<open>
  The screen position of bin \<open>i\<close> in the discrete layout of an analyzer, with the
  \<open>minLog\<close> and \<open>logWidth\<close> that \<open>_calcBars\<close> derives from its frequency range and
  canvas width.
\<close>

definition discrete_pos :: "analyzer \<Rightarrow> int \<Rightarrow> jsnum" where
  "discrete_pos s =
     bar_pos s
       (js_div (Num (of_int (canvas_width s)))
          (js_sub (js_log10 (Num (maxFreq s))) (js_log10 (Num (minFreq s)))))
       (js_log10 (Num (minFreq s)))"

text \<open>The sample analyzer in mode 8 (full octave bands) with the LED display on.\<close>

definition led_scenario :: analyzer where
  "led_scenario =
     sample_analyzer\<lparr>mode := 8, showLeds := True, barWidth := Num 10, isOctaveBands := True,
                     isLedDisplay := True\<rparr>"

text \<open>
  From the words of C7: the number of equal-tempered frequencies \<open>C0 * step ^ k\<close> that
  lie in a range. The step is \<open>2 powr (1 / 12)\<close> for semitones; the notes that
  \<open>_calcBars\<close> generates are a step of \<open>ROOT24\<close> apart.
\<close>

definition tempered_note_count :: "real \<Rightarrow> real \<Rightarrow> real \<Rightarrow> nat" where
  "tempered_note_count step lo hi = card {k :: nat. lo \<le> C0 * step ^ k \<and> C0 * step ^ k \<le> hi}"

text \<open>The sample analyzer in mode 1 over the range 20 to 20000 Hz.\<close>

definition octave_scenario :: analyzer where
  "octave_scenario =
     sample_analyzer\<lparr>mode := 1, minFreq := 20, maxFreq := 20000, isOctaveBands := True\<rparr>"

declare led_loop.simps [simp del]
declare discrete_loop.simps [simp del]
declare tempered_loop.simps [simp del]
declare bins_loop.simps [simp del]

section \<open>The peak of a bar\<close>







section \<open>The energy\<close>























section \<open>Setters\<close>

lemma calcAux_fields:
  "ready (calcAux s) = ready s" "mode (calcAux s) = mode s" "minFreq (calcAux s) = minFreq s"
  "maxFreq (calcAux s) = maxFreq s" "ledParams (calcAux s) = ledParams s"
  "bars (calcAux s) = bars s" "isOctaveBands (calcAux s) = (mode s mod 10 \<noteq> 0)"
  "reflexRatio (calcAux s) = reflexRatio s" "gradients (calcAux s) = gradients s"
  by (simp_all add: calcAux_def Let_def)

lemma calcLeds_fields:
  "ready (snd (calcLeds s)) = ready s" "mode (snd (calcLeds s)) = mode s"
  "minFreq (snd (calcLeds s)) = minFreq s" "maxFreq (snd (calcLeds s)) = maxFreq s"
  "ledParams (snd (calcLeds s)) = ledParams s" "bars (snd (calcLeds s)) = bars s"
  "reflexRatio (snd (calcLeds s)) = reflexRatio s" "gradients (snd (calcLeds s)) = gradients s"
  by (simp_all add: calcLeds_def split: sum.splits)

lemma led_defaults_valid:
  "0 \<le> m \<Longrightarrow> m \<le> 10 \<Longrightarrow> m \<noteq> 9 \<Longrightarrow> m mod 10 \<noteq> 0 \<Longrightarrow> led_defaults m \<noteq> None"
  by (simp add: led_defaults_def) presburger

lemma led_attributes_no_error:
  "ledParams s \<noteq> None \<or> led_defaults (mode s) \<noteq> None \<Longrightarrow> \<exists>l. led_attributes s = Inr l"
  by (auto simp: led_attributes_def Let_def split_def split: option.splits)

lemma calcLeds_no_error:
  "\<not> isOctaveBands s \<or> \<not> ready s \<or> ledParams s \<noteq> None \<or> led_defaults (mode s) \<noteq> None \<Longrightarrow>
   fst (calcLeds s) = None"
  using led_attributes_no_error [of s] by (auto simp: calcLeds_def)


lemma calcBars_fields:
  "ready (snd (calcBars s)) = ready s" "mode (snd (calcBars s)) = mode s"
  "minFreq (snd (calcBars s)) = minFreq s" "maxFreq (snd (calcBars s)) = maxFreq s"
  "ledParams (snd (calcBars s)) = ledParams s"
  "reflexRatio (snd (calcBars s)) = reflexRatio s" "gradients (snd (calcBars s)) = gradients s"
  by (simp_all add: calcBars_def Let_def calcLeds_fields calcAux_fields)

lemma calcBars_no_error:
  assumes "0 \<le> mode s" "mode s \<le> 10" "mode s \<noteq> 9"
  shows "fst (calcBars s) = None"
proof (cases "ready s")
  case False
  then show ?thesis by (simp add: calcBars_def)
next
  case True
  have "fst (calcLeds (calcAux t)) = None" if "mode t = mode s" for t
    using that assms led_defaults_valid [of "mode s"]
    by (intro calcLeds_no_error) (auto simp: calcAux_fields)
  then show ?thesis
    by (simp add: calcBars_def Let_def)
qed




text \<open>
  C6, as the code has it. The mode setter tests the 32-bit integer \<open>value | 0\<close>: when
  that integer is outside 0..10 or equal to 9 the setter throws and the analyzer is as
  before. So do the frequency setters for a value below 1 and the reflex setter for a
  ratio below 0 or at least 1.
\<close>

theorem invalid_config_rejected:
  "(to_int32 v < 0 \<or> 10 < to_int32 v \<or> to_int32 v = 9 \<longrightarrow>
      set_mode v s = (Some ERR_INVALID_MODE, s)) \<and>
   (f < 1 \<longrightarrow>
      set_minFreq f s = (Some ERR_FREQUENCY_TOO_LOW, s) \<and>
      set_maxFreq f s = (Some ERR_FREQUENCY_TOO_LOW, s)) \<and>
   (r < 0 \<or> 1 \<le> r \<longrightarrow> set_reflexRatio (Num r) s = (Some ERR_REFLEX_OUT_OF_RANGE, s))"
  by (auto simp: set_mode_def set_minFreq_def set_maxFreq_def set_reflexRatio_def Let_def
      js_ge_def)

theorem invalid_config_rejected_witness:
  "set_mode (Num 11) sample_analyzer = (Some ERR_INVALID_MODE, sample_analyzer) \<and>
   set_mode (Num 9) sample_analyzer = (Some ERR_INVALID_MODE, sample_analyzer) \<and>
   set_minFreq (1 / 2) sample_analyzer = (Some ERR_FREQUENCY_TOO_LOW, sample_analyzer) \<and>
   set_maxFreq (1 / 2) sample_analyzer = (Some ERR_FREQUENCY_TOO_LOW, sample_analyzer) \<and>
   set_reflexRatio (Num 1) sample_analyzer = (Some ERR_REFLEX_OUT_OF_RANGE, sample_analyzer)"
  using invalid_config_rejected [of "Num 11" sample_analyzer "1 / 2" 1]
    invalid_config_rejected [of "Num 9" sample_analyzer "1 / 2" 1]
  by (simp add: js_trunc_def wrap32_def)

lemma to_int32_minus_half: "to_int32 (Num (- (1 / 2))) = 0"
proof -
  have "\<lceil>- (1 / 2) :: real\<rceil> = 0"
    by (simp add: ceiling_eq_iff)
  then show ?thesis
    by (simp add: js_trunc_def wrap32_def)
qed

text \<open>
  C6 as stated fails for the mode: -0.5 and 4294967297 are outside 0..10, and the setter
  accepts them as the modes 0 and 1.
\<close>

theorem mode_coercion_counterexample:
  "fst (set_mode (Num (- (1 / 2))) sample_analyzer) = None \<and>
   mode (snd (set_mode (Num (- (1 / 2))) sample_analyzer)) = 0 \<and>
   fst (set_mode (Num 4294967297) sample_analyzer) = None \<and>
   mode (snd (set_mode (Num 4294967297) sample_analyzer)) = 1"
proof -
  have "to_int32 (Num 4294967297) = 1"
    by (simp add: js_trunc_def wrap32_def)
  then show ?thesis
    by (simp add: set_mode_def to_int32_minus_half calcBars_fields calcAux_fields
        calcBars_no_error del: to_int32.simps)
qed




section \<open>Gradients and energy lookups\<close>



text \<open>
  C10 at the string \<open>toString\<close>, which is neither \<open>peak\<close> nor a preset name: the
  lookup in \<open>presets\<close> finds the inherited function, and destructuring it throws a
  TypeError where the claim and the function's own documentation promise \<open>null\<close>.
\<close>

theorem getEnergy_inherited_key:
  "getEnergy (Str ''toString'') None sample_analyzer = Inl TypeError"
  by (simp add: getEnergy_def presets_get_def presets_def object_prototype_keys_def)

lemma getEnergy_unknown_name:
  "name \<noteq> ''peak'' \<Longrightarrow> presets name = None \<Longrightarrow> name \<notin> set object_prototype_keys \<Longrightarrow>
   getEnergy (Str name) endFreq s = Inr Null_result"
  by (simp add: getEnergy_def presets_get_def)

section \<open>LED parameters\<close>

text \<open>
  The loop of the override branch of \<open>_calcLeds\<close> stops as soon as the element height
  and the vertical spacing both reach the minimum, or the count is down to 1.
\<close>

lemma led_loop_exit:
  "led_loop ah r mh c0 = (c, bh, sv) \<Longrightarrow>
   (\<not> js_lt bh (Num mh) \<and> \<not> js_lt sv (Num mh)) \<or> c \<le> 1"
proof (induction ah r mh c0 rule: led_loop.induct)
  case (1 ah r mh c0)
  let ?bh = "js_div (js_div (Num ah) (Num (c0 - 1))) (Num (1 + r))"
  let ?sv = "js_mul ?bh (Num r)"
  show ?case
  proof (cases "(js_lt ?bh (Num mh) \<or> js_lt ?sv (Num mh)) \<and> 1 < c0 - 1")
    case True
    have "led_loop ah r mh c0 = led_loop ah r mh (c0 - 1)"
      by (subst led_loop.simps, unfold Let_def, rule if_P, rule True)
    with "1.prems" have "led_loop ah r mh (c0 - 1) = (c, bh, sv)"
      by simp
    then show ?thesis
      by (rule "1.IH" [OF refl refl refl True])
  next
    case False
    have "led_loop ah r mh c0 = (c0 - 1, ?bh, ?sv)"
      by (subst led_loop.simps, unfold Let_def, rule if_not_P, rule False)
    then have "(c, bh, sv) = (c0 - 1, ?bh, ?sv)"
      using "1.prems" [symmetric] by (rule trans [rotated])
    then have e: "c = c0 - 1 \<and> bh = ?bh \<and> sv = ?sv"
      by (metis prod.inject)
    have "\<not> 1 < c \<Longrightarrow> c \<le> 1"
      by simp
    with e False show ?thesis
      by blast
  qed
qed

text \<open>The override branch is never taken: \<open>setLedParams\<close> stores no override.\<close>

lemma setLedParams_ignores: "setLedParams params s = calcLeds (s\<lparr>ledParams := None\<rparr>)"
  by (simp add: setLedParams_def js_gt_def)

text \<open>
  C3 at the override \<open>maxLeds = 4\<close>, \<open>spaceV = 1\<close>, \<open>spaceH = 0.5\<close> in mode 8 with
  an analyzer height of 270: no override is stored, and the LED attributes are those of
  the built-in table, with 17 elements, where the override allows 4 at most.
\<close>

theorem setLedParams_override_lost:
  "ledParams (snd (setLedParams (Some \<lparr>arg_maxLeds = 4, arg_spaceV = 1, arg_spaceH = 1 / 2\<rparr>)
                    led_scenario)) = None \<and>
   leds (snd (setLedParams (Some \<lparr>arg_maxLeds = 4, arg_spaceV = 1, arg_spaceH = 1 / 2\<rparr>)
                    led_scenario)) =
     Some (Num 17, Num (5 / 4), Num 8, Num (278 / 17 - 8))"
proof -
  have t: "to_int32 (Num (81 / 10)) = 8" "to_int32 (Num (139 / 8)) = 17"
    by (simp_all add: js_trunc_def wrap32_def)
  show ?thesis
    by (simp add: setLedParams_ignores calcLeds_def led_attributes_def led_scenario_def
        sample_analyzer_def led_defaults_def Let_def js_ge_def js_sub_def t del: to_int32.simps)
qed




section \<open>The discrete layout\<close>

lemma js_lt_trans: "js_lt a b \<Longrightarrow> js_lt b c \<Longrightarrow> js_lt a c"
  by (cases a; cases b; cases c) auto


lemma js_lt_le_self: "js_lt a b \<Longrightarrow> js_le a b \<and> js_le b b"
  by (cases a; cases b) auto







lemma freqToBin_bars [simp]: "freqToBin (s\<lparr>bars := bs\<rparr>) = freqToBin s"
  by (simp add: fun_eq_iff freqToBin_def frequencyBinCount_def)

lemma binToFreq_bars [simp]: "binToFreq (s\<lparr>bars := bs\<rparr>) = binToFreq s"
  by (simp add: fun_eq_iff binToFreq_def)

lemma bar_pos_bars [simp]: "bar_pos (s\<lparr>bars := bs\<rparr>) = bar_pos s"
  by (simp add: fun_eq_iff bar_pos_def)

lemma calcBars_discrete:
  "ready s \<Longrightarrow> \<not> isOctaveBands s \<Longrightarrow>
   bars (snd (calcBars s)) =
     discrete_loop (discrete_pos s) (freqToBin s (minFreq s) Floor)
       (freqToBin s (maxFreq s) Round) (Num (- 999)) []"
  by (simp add: calcBars_def Let_def calcLeds_fields calcAux_fields discrete_pos_def)





lemma discrete_loop_keeps_head:
  "bs \<noteq> [] \<Longrightarrow>
   discrete_loop f i m lastPos bs \<noteq> [] \<and>
   dataIdx (hd (discrete_loop f i m lastPos bs)) = dataIdx (hd bs)"
proof (induction f i m lastPos bs rule: discrete_loop.induct)
  case (1 f i m lastPos bs)
  show ?case
  proof (cases "i \<le> m")
    case False
    then show ?thesis
      using "1.prems" by (simp add: discrete_loop.simps)
  next
    case True
    show ?thesis
    proof (cases "js_gt (f i) lastPos")
      case push: True
      have eq: "discrete_loop f i m lastPos bs =
          discrete_loop f (i + 1) m (f i) (bs @ [new_bar (f i) i 0])"
        using True push by (subst discrete_loop.simps) (simp add: Let_def)
      show ?thesis
        unfolding eq using "1.IH"(1) [OF True refl push] "1.prems" by simp
    next
      case extend: False
      let ?bs = "butlast bs @ [(last bs)\<lparr>endIdx := i\<rparr>]"
      have eq: "discrete_loop f i m lastPos bs = discrete_loop f (i + 1) m lastPos ?bs"
        using True extend "1.prems" by (subst discrete_loop.simps) (simp add: Let_def)
      have h: "dataIdx (hd ?bs) = dataIdx (hd bs)"
      proof (cases bs rule: rev_cases)
        case Nil
        with "1.prems" show ?thesis by simp
      next
        case (snoc ys y)
        then show ?thesis by (cases ys) simp_all
      qed
      show ?thesis
        unfolding eq using "1.IH"(2) [OF True refl extend "1.prems"] h by simp
    qed
  qed
qed

lemma discrete_loop_first:
  assumes "i \<le> m" and "js_gt (f i) lastPos"
  shows "discrete_loop f i m lastPos [] \<noteq> [] \<and> dataIdx (hd (discrete_loop f i m lastPos [])) = i"
proof -
  have "discrete_loop f i m lastPos [] = discrete_loop f (i + 1) m (f i) [new_bar (f i) i 0]"
    using assms by (subst discrete_loop.simps) (simp add: Let_def)
  then show ?thesis
    using discrete_loop_keeps_head [of "[new_bar (f i) i 0]" f "i + 1" m "f i"]
    by (simp add: new_bar_def)
qed

lemma scenario_bins:
  assumes "fftSize s = 8192" and "sampleRate s = 44100"
  shows "freqToBin s 20 Floor = 3" and "freqToBin s 22000 Round = 4087"
proof -
  have "\<lfloor>20 * 8192 / 44100 :: real\<rfloor> = 3"
    by (simp add: floor_eq_iff)
  moreover have "\<lfloor>22000 * 8192 / 44100 + 1 / 2 :: real\<rfloor> = 4087"
    by (simp add: floor_eq_iff)
  ultimately show "freqToBin s 20 Floor = 3" and "freqToBin s 22000 Round = 4087"
    using assms by (simp_all add: freqToBin_def frequencyBinCount_def Let_def)
qed


lemma scenario_first_pos:
  assumes "fftSize s = 8192" and "sampleRate s = 44100" and "minFreq s = 20"
    and "maxFreq s = 22000" and "canvas_width s = 1000"
  shows "js_gt (discrete_pos s 3) (Num (- 999))"
proof -
  define d where "d = log 10 22000 - log 10 (20 :: real)"
  define y where "y = log 10 (3 * 44100 / 8192) - log 10 (20 :: real)"
  have l3: "log 10 1000 = (3 :: real)"
    using log_pow_cancel [of "10 :: real" 3] by simp
  have "log 10 (1000 :: real) \<le> log 10 1100"
    by (subst log_le_cancel_iff) simp_all
  moreover have "log 10 (22000 / 20 :: real) = log 10 22000 - log 10 20"
    by (rule log_divide_pos) simp_all
  then have "d = log 10 (1100 :: real)"
    by (simp add: d_def)
  ultimately have d: "3 \<le> d"
    using l3 by simp
  have "log 10 (1 / 10 :: real) = log 10 1 - log 10 10"
    by (rule log_divide_pos) simp_all
  then have m1: "log 10 (1 / 10 :: real) = - 1"
    by simp
  have "log 10 (1 / 10 :: real) \<le> log 10 (3 * 44100 / 8192 / 20)"
    by (subst log_le_cancel_iff) simp_all
  moreover have "log 10 (3 * 44100 / 8192 / 20 :: real) = log 10 (3 * 44100 / 8192) - log 10 20"
    by (rule log_divide_pos) simp_all
  ultimately have y: "- 1 \<le> y"
    unfolding y_def m1 by simp
  have dp: "0 < d"
    using d by simp
  have w: "0 \<le> 1000 / d" "1000 / d \<le> 1000 / 3"
    using d dp by (simp_all add: pos_divide_le_eq)
  have "- (1000 / 3) \<le> - (1000 / d)"
    using w by simp
  also have "- (1000 / d) = 1000 / d * (- 1)"
    by simp
  also have "\<dots> \<le> 1000 / d * y"
    using w(1) y by (intro mult_left_mono) simp_all
  finally have x: "- 334 \<le> 1000 / d * y + 1 / 2"
    by simp
  then have "- 334 \<le> \<lfloor>1000 / d * y + 1 / 2\<rfloor>"
    by (simp add: le_floor_iff)
  then have f: "- 999 < real_of_int \<lfloor>1000 / d * y + 1 / 2\<rfloor>"
    by linarith
  have dn: "d \<noteq> 0"
    using d by simp
  have "discrete_pos s 3 = Num (of_int \<lfloor>1000 / d * y + 1 / 2\<rfloor>)"
    using dn unfolding d_def y_def
    by (simp add: discrete_pos_def bar_pos_def binToFreq_def assms js_sub_def)
  then show ?thesis
    using f by (simp add: js_gt_def)
qed

text \<open>
  C8. With an FFT size of 8192 at 44100 Hz, the range 20 to 22000 Hz and a canvas 1000
  pixels wide, the discrete layout has a first bar, and it starts at bin
  \<open>floor(20 * 8192 / 44100) = 3\<close>.
\<close>

theorem scenario_lowest_bar:
  assumes "ready s" and "\<not> isOctaveBands s"
    and "fftSize s = 8192" and "sampleRate s = 44100" and "minFreq s = 20"
    and "maxFreq s = 22000" and "canvas_width s = 1000"
  shows "bars (snd (calcBars s)) \<noteq> [] \<and>
         dataIdx (hd (bars (snd (calcBars s)))) = \<lfloor>20 * 8192 / 44100 :: real\<rfloor> \<and>
         dataIdx (hd (bars (snd (calcBars s)))) = 3"
proof -
  have b: "freqToBin s (minFreq s) Floor = 3" "freqToBin s (maxFreq s) Round = 4087"
    using scenario_bins [OF assms(3,4)] assms(5,6) by simp_all
  have fl: "\<lfloor>20 * 8192 / 44100 :: real\<rfloor> = 3"
    by (simp add: floor_eq_iff)
  have "discrete_loop (discrete_pos s) 3 4087 (Num (- 999)) [] \<noteq> [] \<and>
      dataIdx (hd (discrete_loop (discrete_pos s) 3 4087 (Num (- 999)) [])) = 3"
    by (rule discrete_loop_first) (simp_all add: scenario_first_pos [OF assms(3-7)])
  then show ?thesis
    unfolding calcBars_discrete [OF assms(1,2)] b fl by simp
qed

theorem scenario_lowest_bar_witness:
  "bars (snd (calcBars sample_analyzer)) \<noteq> [] \<and>
   dataIdx (hd (bars (snd (calcBars sample_analyzer)))) = 3"
  using scenario_lowest_bar [of sample_analyzer]
  by (simp add: sample_analyzer_def)




section \<open>The octave band layout\<close>

lemma ROOT24_gt_1: "1 < ROOT24"
  unfolding ROOT24_def by simp

lemma C0_pos: "0 < C0"
  unfolding C0_def ROOT24_def by simp

lemma tempered_freq: "C0 * ROOT24 ^ k = 440 * 2 powr ((real k - 114) / 24)"
proof -
  have "ROOT24 ^ k = 2 powr (real k / 24)"
    unfolding ROOT24_def by (simp add: powr_realpow [symmetric] powr_powr)
  moreover have "ROOT24 powr (- 114) = 2 powr (- 114 / 24)"
    unfolding ROOT24_def by (simp add: powr_powr)
  ultimately show ?thesis
    by (simp add: C0_def powr_add [symmetric] diff_divide_distrib)
qed

lemma tempered_mono: "k \<le> k' \<Longrightarrow> C0 * ROOT24 ^ k \<le> C0 * ROOT24 ^ k'"
  using ROOT24_gt_1 C0_pos by (simp add: power_increasing)

lemma powr24: "(2 powr (j / 24)) ^ 24 = (2 :: real) powr j"
proof -
  have "(2 powr (j / 24)) ^ 24 = (2 powr (j / 24)) powr (real 24)"
    by (subst powr_realpow) simp_all
  then show ?thesis
    by (simp add: powr_powr)
qed

lemma powr24_ge: "0 \<le> a \<Longrightarrow> a ^ 24 \<le> 2 powr j \<Longrightarrow> a \<le> 2 powr (j / 24)"
  for a j :: real
  using power_le_imp_le_base [of a 23 "2 powr (j / 24)"] by (simp add: powr24)

lemma powr24_gt: "0 \<le> a \<Longrightarrow> a ^ 24 < 2 powr j \<Longrightarrow> a < 2 powr (j / 24)"
  for a j :: real
  using power_less_imp_less_base [of a 24 "2 powr (j / 24)"] by (simp add: powr24)

lemma powr24_le: "0 \<le> a \<Longrightarrow> 2 powr j \<le> a ^ 24 \<Longrightarrow> 2 powr (j / 24) \<le> a"
  for a j :: real
  using power_le_imp_le_base [of "2 powr (j / 24)" 23 a] by (simp add: powr24)

lemma powr24_lt: "0 \<le> a \<Longrightarrow> 2 powr j < a ^ 24 \<Longrightarrow> 2 powr (j / 24) < a"
  for a j :: real
  using power_less_imp_less_base [of "2 powr (j / 24)" 24 a] by (simp add: powr24)

lemma tempered_7: "20 \<le> C0 * ROOT24 ^ 7"
proof -
  have "(1 / 22 :: real) \<le> 2 powr (- 107 / 24)"
    by (rule powr24_ge) (simp_all add: powr_minus_divide power_divide)
  then show ?thesis
    unfolding tempered_freq by simp
qed

lemma tempered_6: "C0 * ROOT24 ^ 6 < 20"
proof -
  have "2 powr (- 108 / 24) < (1 / 22 :: real)"
    by (rule powr24_lt) (simp_all add: powr_minus_divide power_divide)
  then show ?thesis
    unfolding tempered_freq by simp
qed

lemma tempered_246: "C0 * ROOT24 ^ 246 \<le> 20000"
proof -
  have "2 powr (132 / 24) \<le> (500 / 11 :: real)"
    by (rule powr24_le) (simp_all add: power_divide)
  then show ?thesis
    unfolding tempered_freq by simp
qed

lemma tempered_247: "20000 < C0 * ROOT24 ^ 247"
proof -
  have "(500 / 11 :: real) < 2 powr (133 / 24)"
    by (rule powr24_gt) (simp_all add: power_divide)
  then show ?thesis
    unfolding tempered_freq by simp
qed


lemma tempered_ge_20: "20 \<le> C0 * ROOT24 ^ k \<longleftrightarrow> 7 \<le> k"
proof
  assume "20 \<le> C0 * ROOT24 ^ k"
  show "7 \<le> k"
  proof (rule ccontr)
    assume "\<not> 7 \<le> k"
    then have "C0 * ROOT24 ^ k \<le> C0 * ROOT24 ^ 6"
      by (intro tempered_mono) simp
    with tempered_6 \<open>20 \<le> C0 * ROOT24 ^ k\<close> show False
      by simp
  qed
next
  assume "7 \<le> k"
  then have "C0 * ROOT24 ^ 7 \<le> C0 * ROOT24 ^ k"
    by (rule tempered_mono)
  with tempered_7 show "20 \<le> C0 * ROOT24 ^ k"
    by simp
qed

lemma tempered_le_20000: "C0 * ROOT24 ^ k \<le> 20000 \<longleftrightarrow> k < 247"
proof
  assume "C0 * ROOT24 ^ k \<le> 20000"
  show "k < 247"
  proof (rule ccontr)
    assume "\<not> k < 247"
    then have "C0 * ROOT24 ^ 247 \<le> C0 * ROOT24 ^ k"
      by (intro tempered_mono) simp
    with tempered_247 \<open>C0 * ROOT24 ^ k \<le> 20000\<close> show False
      by simp
  qed
next
  assume "k < 247"
  then have "C0 * ROOT24 ^ k \<le> C0 * ROOT24 ^ 246"
    by (intro tempered_mono) simp
  with tempered_246 show "C0 * ROOT24 ^ k \<le> 20000"
    by simp
qed

lemma tempered_loop_run:
  "i \<le> 247 \<Longrightarrow>
   tempered_loop 20 20000 (Some 1) i acc = acc @ map (\<lambda>k. C0 * ROOT24 ^ k) [max i 7..<247]"
proof (induction "247 - i" arbitrary: i acc)
  case 0
  then have i: "i = 247"
    by simp
  show ?case
    unfolding i by (subst tempered_loop.simps) (simp add: tempered_le_20000 Let_def)
next
  case (Suc n)
  then have i: "i < 247"
    by simp
  have step: "tempered_loop 20 20000 (Some 1) i acc =
      tempered_loop 20 20000 (Some 1) (i + 1) (if 7 \<le> i then acc @ [C0 * ROOT24 ^ i] else acc)"
    using i
    by (subst tempered_loop.simps)
      (simp add: tempered_le_20000 tempered_ge_20 note_selected_def Let_def)
  have ih: "tempered_loop 20 20000 (Some 1) (i + 1) a =
      a @ map (\<lambda>k. C0 * ROOT24 ^ k) [max (i + 1) 7..<247]" for a
    using Suc.hyps(1) [of "i + 1" a] Suc.hyps(2) i by simp
  show ?case
  proof (cases "7 \<le> i")
    case True
    then have "[max i 7..<247] = i # [max (i + 1) 7..<247]"
      using i by (simp add: max_def upt_conv_Cons)
    then show ?thesis
      unfolding step ih using True by simp
  next
    case False
    then have "max i 7 = max (i + 1) 7"
      by simp
    then show ?thesis
      unfolding step ih using False by simp
  qed
qed

lemma tempered_scale_20_20000:
  "tempered_loop 20 20000 (Some 1) 0 [] = map (\<lambda>k. C0 * ROOT24 ^ k) [7..<247]"
  using tempered_loop_run [of 0 "[]"] by simp

lemma set_factors_length: "length (set_factors n k bs) = length bs"
  by (induction k arbitrary: bs) (simp_all add: Let_def)

lemma octave_loop_length:
  "length (octave_loop s bw fs index prevBin prevIdx nBars bs) = length bs + length fs"
proof (induction fs arbitrary: index prevBin prevIdx nBars bs)
  case Nil
  show ?case by simp
next
  case (Cons f rest)
  show ?case
    by (simp add: Let_def Cons.IH set_factors_length)
qed


lemma calcBars_octave_length:
  "ready s \<Longrightarrow> isOctaveBands s \<Longrightarrow>
   length (bars (snd (calcBars s))) =
     length (tempered_loop (minFreq s) (maxFreq s) (notesPerBand (mode s)) 0 [])"
  by (simp add: calcBars_def Let_def calcLeds_fields calcAux_fields octave_loop_length)

lemma quarter_tone_count: "tempered_note_count ROOT24 20 20000 = 240"
proof -
  have "{k :: nat. 20 \<le> C0 * ROOT24 ^ k \<and> C0 * ROOT24 ^ k \<le> 20000} = {7..<247}"
    by (auto simp: tempered_ge_20 tempered_le_20000)
  then show ?thesis
    by (simp add: tempered_note_count_def)
qed

lemma semitone_count: "tempered_note_count (2 powr (1 / 12)) 20 20000 = 120"
proof -
  have "ROOT24 ^ 2 = ROOT24 powr 2"
    using ROOT24_gt_1 by simp
  also have "\<dots> = 2 powr (1 / 12)"
    by (simp add: ROOT24_def powr_powr)
  finally have st: "(2 powr (1 / 12)) ^ k = ROOT24 ^ (2 * k)" for k
    by (simp add: power_mult)
  have "{k :: nat. 20 \<le> C0 * (2 powr (1 / 12)) ^ k \<and> C0 * (2 powr (1 / 12)) ^ k \<le> 20000} =
      {4..<124}"
    unfolding st by (auto simp: tempered_ge_20 tempered_le_20000)
  then show ?thesis
    by (simp add: tempered_note_count_def)
qed

lemma tempered_scale_length: "length (tempered_loop 20 20000 (notesPerBand 1) 0 []) = 240"
proof -
  have n: "notesPerBand 1 = Some 1"
    by (simp add: notesPerBand_def)
  have "length (map (\<lambda>k. C0 * ROOT24 ^ k) [7..<247]) = 240"
    by simp
  then show ?thesis
    unfolding n tempered_scale_20_20000 .
qed

lemma octave_bar_count_len:
  "length (bars (snd (calcBars octave_scenario))) = 240"
proof -
  have s: "ready octave_scenario" "isOctaveBands octave_scenario"
    and m: "mode octave_scenario = 1" "minFreq octave_scenario = 20"
      "maxFreq octave_scenario = 20000"
    by (simp_all add: octave_scenario_def sample_analyzer_def)
  show ?thesis
    using calcBars_octave_length [OF s] unfolding m by (simp only: tempered_scale_length)
qed

text \<open>
  C7, as the code has it. In mode 1 (\<open>notesPerBand = 1\<close>) over the range 20 to 20000 Hz
  the layout has one bar per note of the tempered scale, and the scale holds every
  frequency \<open>C0 * ROOT24 ^ k\<close> of the range: the notes are a 24th of an octave apart, and
  there are 240 of them (\<open>k\<close> from 7 to 246).
\<close>

theorem octave_bar_count:
  assumes "ready s" and "isOctaveBands s" and "mode s = 1"
    and "minFreq s = 20" and "maxFreq s = 20000"
  shows "length (bars (snd (calcBars s))) =
           length (tempered_loop 20 20000 (notesPerBand 1) 0 []) \<and>
         length (bars (snd (calcBars s))) = tempered_note_count ROOT24 20 20000 \<and>
         length (bars (snd (calcBars s))) = 240"
proof -
  have "length (bars (snd (calcBars s))) =
      length (tempered_loop 20 20000 (notesPerBand 1) 0 [])"
    using calcBars_octave_length [OF assms(1,2)] unfolding assms(3-5) .
  then show ?thesis
    by (simp only: tempered_scale_length quarter_tone_count)
qed

theorem octave_bar_count_witness:
  "length (bars (snd (calcBars octave_scenario))) = tempered_note_count ROOT24 20 20000 \<and>
   length (bars (snd (calcBars octave_scenario))) = 240"
  using octave_bar_count [of octave_scenario]
  by (simp add: octave_scenario_def sample_analyzer_def)

text \<open>
  C7 as stated fails: the range holds 120 semitone frequencies \<open>C0 * 2 powr (k / 12)\<close>,
  and the layout has 240 bars.
\<close>

theorem semitone_count_counterexample:
  "length (bars (snd (calcBars octave_scenario))) = 240 \<and>
   tempered_note_count (2 powr (1 / 12)) 20 20000 = 120 \<and>
   length (bars (snd (calcBars octave_scenario))) \<noteq>
     tempered_note_count (2 powr (1 / 12)) 20 20000"
proof -
  have "length (bars (snd (calcBars octave_scenario))) = 240"
    by (rule octave_bar_count_len)
  then show ?thesis
    by (simp add: semitone_count)
qed


end
